theory Spec2Isabelle
  imports Main
begin

section \<open>The TweetUp backend (backend/app.py)\<close>

text \<open>
  A shallow embedding of the Flask application in \<^verbatim>\<open>backend/app.py\<close>: the three SQLite
  tables, the connection handling of every function, the scheduler's job store and the
  console the notification is printed to. Randomness (\<^verbatim>\<open>random.randint\<close>,
  \<^verbatim>\<open>ORDER BY RANDOM()\<close>) is an explicit entropy argument \<open>r\<close>, the SQL
  \<^verbatim>\<open>CURRENT_TIMESTAMP\<close> an explicit clock argument \<open>now\<close> (seconds).
\<close>

subsection \<open>Rows and tables\<close>

text \<open>Python exceptions that leave a function of the module.\<close>

datatype error = ValueError | TypeError | IntegrityError

text \<open>Table \<^verbatim>\<open>tweetbooks\<close> (lines 26-33).\<close>

record tweetbook =
  tb_id :: int
  tb_name :: string
  tb_description :: "string option"
  tb_created_at :: nat

text \<open>Table \<^verbatim>\<open>tweets\<close> (lines 36-47); \<^verbatim>\<open>tweetbook_id\<close> and \<^verbatim>\<open>last_shown\<close> are nullable.\<close>

record tweet =
  t_id :: int
  t_tweet_id :: string
  t_content :: string
  t_author :: string
  t_tweetbook_id :: "int option"
  t_created_at :: nat
  t_last_shown :: "nat option"

text \<open>
  Table \<^verbatim>\<open>settings\<close> (lines 50-60). \<^verbatim>\<open>random_mode\<close> is the integer SQLite stores for
  the BOOLEAN column; the three text columns and \<^verbatim>\<open>random_mode\<close> have defaults and
  are never written with NULL by the module, \<^verbatim>\<open>active_tweetbook_id\<close> is nullable.
\<close>

record settings =
  s_id :: int
  notification_frequency :: string
  active_tweetbook_id :: "int option"
  start_time :: string
  end_time :: string
  random_mode :: int

text \<open>
  The database once the tables exist. Rows are kept in rowid order; the two
  \<open>_seq\<close> fields are the \<^verbatim>\<open>sqlite_sequence\<close> entries of the AUTOINCREMENT tables.
\<close>

record store =
  tweetbooks :: "tweetbook list"
  tweetbooks_seq :: int
  tweets :: "tweet list"
  tweets_seq :: int
  settings_tbl :: "settings list"

text \<open>The database file as \<^verbatim>\<open>init_db\<close> may find it: each table may be missing.\<close>

record dbfile =
  file_tweetbooks :: "tweetbook list option"
  file_tweetbooks_seq :: int
  file_tweets :: "tweet list option"
  file_tweets_seq :: int
  file_settings :: "settings list option"

definition file_of :: "store \<Rightarrow> dbfile" where
  "file_of d =
     \<lparr>file_tweetbooks = Some (tweetbooks d), file_tweetbooks_seq = tweetbooks_seq d,
      file_tweets = Some (tweets d), file_tweets_seq = tweets_seq d,
      file_settings = Some (settings_tbl d)\<rparr>"

definition fresh_file :: dbfile where
  "fresh_file =
     \<lparr>file_tweetbooks = None, file_tweetbooks_seq = 0,
      file_tweets = None, file_tweets_seq = 0, file_settings = None\<rparr>"

subsection \<open>Process state and connections\<close>

text \<open>
  An APScheduler trigger as the module constructs it: \<^verbatim>\<open>IntervalTrigger(minutes=n)\<close>
  and \<^verbatim>\<open>CronTrigger(hour=h, minute=m)\<close> with the field expressions \<open>h\<close>, \<open>m\<close>
  as the strings that are passed.
\<close>

datatype trigger = IntervalTrigger int | CronTrigger string string

text \<open>
  The state of the running process: the database, the scheduler's jobs (id and trigger),
  the number of connections opened and not yet closed, the lines printed, and a counter
  of the calls of \<^verbatim>\<open>update_scheduler\<close>.
\<close>

record app =
  db :: store
  jobs :: "(string \<times> trigger) list"
  open_conns :: nat
  console :: "string list"
  recomputes :: nat

text \<open>
  \<^verbatim>\<open>sqlite3.connect(DB_PATH)\<close>. A new SQLite connection has
  \<^verbatim>\<open>PRAGMA foreign_keys\<close> off, and no function of the module turns it on.
\<close>

record conn =
  foreign_keys :: bool

definition connect :: "app \<Rightarrow> conn \<times> app" where
  "connect st = (\<lparr>foreign_keys = False\<rparr>, st\<lparr>open_conns := Suc (open_conns st)\<rparr>)"

definition close :: "app \<Rightarrow> app" where
  "close st = st\<lparr>open_conns := open_conns st - 1\<rparr>"

text \<open>A foreign key value is acceptable when it is NULL or names a row of \<^verbatim>\<open>tweetbooks\<close>.\<close>

definition names_tweetbook :: "store \<Rightarrow> int option \<Rightarrow> bool" where
  "names_tweetbook d v =
     (case v of None \<Rightarrow> True | Some b \<Rightarrow> find (\<lambda>t. tb_id t = b) (tweetbooks d) \<noteq> None)"

text \<open>Python truthiness of an optional integer and of an optional string.\<close>

definition truthy_int :: "int option \<Rightarrow> bool" where
  "truthy_int v = (case v of None \<Rightarrow> False | Some i \<Rightarrow> i \<noteq> 0)"

definition truthy_str :: "string option \<Rightarrow> bool" where
  "truthy_str v = (case v of None \<Rightarrow> False | Some s \<Rightarrow> s \<noteq> [])"

text \<open>\<^verbatim>\<open>SELECT ... FROM settings WHERE id = 1\<close> followed by \<^verbatim>\<open>fetchone()\<close>.\<close>

definition settings_row :: "store \<Rightarrow> settings option" where
  "settings_row d = find (\<lambda>s. s_id s = 1) (settings_tbl d)"

subsection \<open>\<^verbatim>\<open>init_db\<close> (lines 20-70)\<close>

definition default_tweetbook :: "nat \<Rightarrow> tweetbook" where
  "default_tweetbook now =
     \<lparr>tb_id = 1, tb_name = ''Default'',
      tb_description = Some ''Your default collection of tweets'', tb_created_at = now\<rparr>"

definition default_settings :: settings where
  "default_settings =
     \<lparr>s_id = 1, notification_frequency = ''hourly'', active_tweetbook_id = Some 1,
      start_time = ''09:00'', end_time = ''17:00'', random_mode = 1\<rparr>"

text \<open>
  \<^verbatim>\<open>CREATE TABLE IF NOT EXISTS\<close> for each table, then the two \<^verbatim>\<open>INSERT OR IGNORE\<close>
  statements: the tweetbook insert is skipped when a row has id 1 or the (UNIQUE) name
  \<^verbatim>\<open>Default\<close>, the settings insert when a row has id 1.
\<close>

definition init_db :: "nat \<Rightarrow> dbfile \<Rightarrow> store" where
  "init_db now f =
     (let tbs = (case file_tweetbooks f of None \<Rightarrow> [] | Some rows \<Rightarrow> rows);
          tws = (case file_tweets f of None \<Rightarrow> [] | Some rows \<Rightarrow> rows);
          sts = (case file_settings f of None \<Rightarrow> [] | Some rows \<Rightarrow> rows);
          ignored = (find (\<lambda>t. tb_id t = 1 \<or> tb_name t = ''Default'') tbs \<noteq> None)
      in \<lparr>tweetbooks = (if ignored then tbs else insort_key tb_id (default_tweetbook now) tbs),
          tweetbooks_seq = (if ignored then file_tweetbooks_seq f
                            else max (file_tweetbooks_seq f) 1),
          tweets = tws,
          tweets_seq = file_tweets_seq f,
          settings_tbl = (if find (\<lambda>s. s_id s = 1) sts \<noteq> None then sts
                          else insort_key s_id default_settings sts)\<rparr>)"

subsection \<open>\<^verbatim>\<open>get_random_tweet\<close> (lines 81-114)\<close>

text \<open>The dictionary returned for a tweet: id, tweet_id, content, author.\<close>

record tweet_dict =
  d_id :: int
  d_tweet_id :: string
  d_content :: string
  d_author :: string

definition dict_of :: "tweet \<Rightarrow> tweet_dict" where
  "dict_of t = \<lparr>d_id = t_id t, d_tweet_id = t_tweet_id t,
                d_content = t_content t, d_author = t_author t\<rparr>"

text \<open>
  The rows the SELECT ranges over: \<^verbatim>\<open>if tweetbook_id:\<close> chooses the filtered query,
  so \<^verbatim>\<open>None\<close> and \<^verbatim>\<open>0\<close> both give the unfiltered one.
\<close>

definition candidates :: "int option \<Rightarrow> store \<Rightarrow> tweet list" where
  "candidates tweetbook_id d =
     (if truthy_int tweetbook_id
      then filter (\<lambda>t. t_tweetbook_id t = tweetbook_id) (tweets d)
      else tweets d)"

text \<open>\<^verbatim>\<open>ORDER BY RANDOM() LIMIT 1\<close> and \<^verbatim>\<open>fetchone()\<close>: the entropy \<open>r\<close> picks the row.\<close>

definition fetch_random :: "nat \<Rightarrow> tweet list \<Rightarrow> tweet option" where
  "fetch_random r rows = (if rows = [] then None else Some (rows ! (r mod length rows)))"

text \<open>\<^verbatim>\<open>UPDATE tweets SET last_shown = CURRENT_TIMESTAMP WHERE id = ?\<close>\<close>

definition mark_shown :: "nat \<Rightarrow> int \<Rightarrow> store \<Rightarrow> store" where
  "mark_shown now i d =
     d\<lparr>tweets := map (\<lambda>t. if t_id t = i then t\<lparr>t_last_shown := Some now\<rparr> else t) (tweets d)\<rparr>"

text \<open>The branch that finds a tweet returns at line 106, before \<^verbatim>\<open>conn.close()\<close> (line 113).\<close>

definition get_random_tweet :: "nat \<Rightarrow> nat \<Rightarrow> int option \<Rightarrow> app \<Rightarrow> tweet_dict option \<times> app" where
  "get_random_tweet r now tweetbook_id st =
     (let (c, st1) = connect st
      in case fetch_random r (candidates tweetbook_id (db st1)) of
           Some t \<Rightarrow> (Some (dict_of t), st1\<lparr>db := mark_shown now (t_id t) (db st1)\<rparr>)
         | None \<Rightarrow> (None, close st1))"

subsection \<open>\<^verbatim>\<open>show_tweet_notification\<close> (lines 117-139)\<close>

text \<open>The line printed for a tweet.\<close>

definition notification_line :: "tweet_dict \<Rightarrow> string" where
  "notification_line tw = ''NOTIFICATION: Tweet by '' @ d_author tw @ '': '' @ d_content tw"

text \<open>
  \<^verbatim>\<open>if result:\<close> tests whether the settings row was found; the column value, NULL
  included, is passed on to \<^verbatim>\<open>get_random_tweet\<close>. The branch that has a tweet returns
  at line 136, before \<^verbatim>\<open>conn.close()\<close> (line 138).
\<close>

definition show_tweet_notification :: "nat \<Rightarrow> nat \<Rightarrow> app \<Rightarrow> tweet_dict option \<times> app" where
  "show_tweet_notification r now st =
     (let (c, st1) = connect st
      in case settings_row (db st1) of
           Some result \<Rightarrow>
             (case get_random_tweet r now (active_tweetbook_id result) st1 of
                (Some tw, st2) \<Rightarrow> (Some tw, st2\<lparr>console := console st2 @ [notification_line tw]\<rparr>)
              | (None, st2) \<Rightarrow> (None, close st2))
         | None \<Rightarrow> (None, close st1))"

subsection \<open>\<^verbatim>\<open>update_scheduler\<close> (lines 142-190)\<close>

text \<open>\<^verbatim>\<open>random.randint(a, b)\<close>: an integer of \<open>[a, b]\<close>, chosen by the entropy \<open>r\<close>.\<close>

definition randint :: "int \<Rightarrow> int \<Rightarrow> nat \<Rightarrow> int" where
  "randint a b r = a + int (r mod nat (b - a + 1))"

text \<open>\<^verbatim>\<open>str.split(sep)\<close> for a one-character separator.\<close>

fun split_sep :: "char \<Rightarrow> string \<Rightarrow> string list" where
  "split_sep c [] = [[]]"
| "split_sep c (x # xs) =
     (if x = c then [] # split_sep c xs
      else (case split_sep c xs of p # ps \<Rightarrow> (x # p) # ps | [] \<Rightarrow> [[x]]))"

text \<open>
  \<^verbatim>\<open>scheduler.add_job(show_tweet_notification, trigger, id=...)\<close>; it is only called
  after \<^verbatim>\<open>remove_all_jobs()\<close>, so the id is never taken.
\<close>

definition add_job :: "string \<Rightarrow> trigger \<Rightarrow> app \<Rightarrow> app" where
  "add_job job_id trig st = st\<lparr>jobs := jobs st @ [(job_id, trig)]\<rparr>"

text \<open>
  The unpacking \<^verbatim>\<open>hour, minute = start_time.split(':')\<close> raises ValueError unless the
  split has exactly two parts; the exception leaves the function before
  \<^verbatim>\<open>conn.close()\<close>.
\<close>

definition update_scheduler :: "nat \<Rightarrow> app \<Rightarrow> (error + unit) \<times> app" where
  "update_scheduler r st =
     (let st0 = st\<lparr>recomputes := Suc (recomputes st), jobs := []\<rparr>;
          (c, st1) = connect st0
      in case settings_row (db st1) of
           None \<Rightarrow> (Inr (), close st1)
         | Some result \<Rightarrow>
             (let frequency = notification_frequency result
              in if random_mode result \<noteq> 0 then
                   (let interval_minutes =
                          (if frequency = ''hourly'' then randint 30 90 r
                           else if frequency = ''daily'' then randint 720 1440 r
                           else randint 15 180 r)
                    in (Inr (), close (add_job ''show_tweet'' (IntervalTrigger interval_minutes) st1)))
                 else if frequency = ''hourly'' then
                   (Inr (), close (add_job ''show_tweet'' (CronTrigger ''9-17'' ''0'') st1))
                 else if frequency = ''daily'' then
                   (case split_sep CHR '':'' (start_time result) of
                      [hour, minute] \<Rightarrow>
                        (Inr (), close (add_job ''show_tweet'' (CronTrigger hour minute) st1))
                    | _ \<Rightarrow> (Inl ValueError, st1))
                 else if frequency = ''custom'' then (Inr (), close st1)
                 else (Inr (), close st1)))"

subsection \<open>Module start (lines 74-78 and 194)\<close>

text \<open>\<^verbatim>\<open>init_db()\<close>, a started scheduler without jobs, then \<^verbatim>\<open>update_scheduler()\<close>.\<close>

definition started :: "store \<Rightarrow> app" where
  "started d = \<lparr>db = d, jobs = [], open_conns = 0, console = [], recomputes = 0\<rparr>"

definition startup :: "nat \<Rightarrow> nat \<Rightarrow> dbfile \<Rightarrow> (error + unit) \<times> app" where
  "startup r now f = update_scheduler r (started (init_db now f))"

subsection \<open>HTTP handlers\<close>

text \<open>A handler's answer: the JSON body with its status, or an error message with its status.\<close>

datatype 'a response = Json 'a nat | ErrorJson string nat

text \<open>
  The body of \<^verbatim>\<open>POST /api/tweets\<close>. For \<^verbatim>\<open>tweetbook_id\<close> the outer option is the
  presence of the key (\<^verbatim>\<open>data.get('tweetbook_id', 1)\<close>), the inner one JSON null.
\<close>

record tweet_request =
  q_tweet_id :: "string option"
  q_content :: "string option"
  q_author :: "string option"
  q_tweetbook_id :: "int option option"

record saved_tweet =
  sv_id :: int
  sv_tweet_id :: string
  sv_content :: string
  sv_author :: string
  sv_tweetbook_id :: "int option"

text \<open>The rowid an AUTOINCREMENT table gives a new row.\<close>

definition next_rowid :: "int list \<Rightarrow> int \<Rightarrow> int" where
  "next_rowid ids seq = fold max ids seq + 1"

text \<open>
  \<^verbatim>\<open>save_tweet\<close> (lines 238-270). The INSERT raises IntegrityError for a duplicate
  \<^verbatim>\<open>tweet_id\<close> and, on a connection that enforces foreign keys, for a
  \<^verbatim>\<open>tweetbook_id\<close> that names no tweetbook.
\<close>

definition violates_unique :: "store \<Rightarrow> string \<Rightarrow> bool" where
  "violates_unique d tweet_id = (find (\<lambda>t. t_tweet_id t = tweet_id) (tweets d) \<noteq> None)"

definition violates_foreign_key :: "conn \<Rightarrow> store \<Rightarrow> int option \<Rightarrow> bool" where
  "violates_foreign_key c d v = (foreign_keys c \<and> \<not> names_tweetbook d v)"

definition save_tweet :: "nat \<Rightarrow> tweet_request \<Rightarrow> app \<Rightarrow> saved_tweet response \<times> app" where
  "save_tweet now q st =
     (let tweetbook_id = (case q_tweetbook_id q of None \<Rightarrow> Some 1 | Some v \<Rightarrow> v)
      in if \<not> (truthy_str (q_tweet_id q) \<and> truthy_str (q_content q) \<and> truthy_str (q_author q))
         then (ErrorJson ''Tweet ID, content, and author are required'' 400, st)
         else
           (let tweet_id = the (q_tweet_id q); content = the (q_content q);
                author = the (q_author q);
                (c, st1) = connect st;
                d = db st1
            in if violates_unique d tweet_id then
                 (ErrorJson ''This tweet has already been saved'' 400, close st1)
               else if violates_foreign_key c d tweetbook_id then
                 (ErrorJson ''This tweet has already been saved'' 400, close st1)
               else
                 (let tweet_db_id = next_rowid (map t_id (tweets d)) (tweets_seq d);
                      row = \<lparr>t_id = tweet_db_id, t_tweet_id = tweet_id, t_content = content,
                             t_author = author, t_tweetbook_id = tweetbook_id,
                             t_created_at = now, t_last_shown = None\<rparr>
                  in (Json \<lparr>sv_id = tweet_db_id, sv_tweet_id = tweet_id, sv_content = content,
                             sv_author = author, sv_tweetbook_id = tweetbook_id\<rparr> 201,
                      close (st1\<lparr>db := d\<lparr>tweets := tweets d @ [row],
                                           tweets_seq := tweet_db_id\<rparr>\<rparr>)))))"

text \<open>
  \<^verbatim>\<open>get_settings\<close> (lines 295-312): the row of the join for settings id 1, and
  \<^verbatim>\<open>dict(None)\<close>, a TypeError, when the join is empty; the exception leaves the
  handler before \<^verbatim>\<open>conn.close()\<close>.
\<close>

record settings_dict =
  g_notification_frequency :: string
  g_start_time :: string
  g_end_time :: string
  g_random_mode :: int
  g_active_tweetbook_id :: int
  g_active_tweetbook_name :: string

definition settings_join :: "store \<Rightarrow> settings_dict option" where
  "settings_join d =
     (case settings_row d of
        None \<Rightarrow> None
      | Some s \<Rightarrow>
          (case active_tweetbook_id s of
             None \<Rightarrow> None
           | Some a \<Rightarrow>
               (case find (\<lambda>t. tb_id t = a) (tweetbooks d) of
                  None \<Rightarrow> None
                | Some t \<Rightarrow>
                    Some \<lparr>g_notification_frequency = notification_frequency s,
                          g_start_time = start_time s, g_end_time = end_time s,
                          g_random_mode = random_mode s, g_active_tweetbook_id = a,
                          g_active_tweetbook_name = tb_name t\<rparr>)))"

definition get_settings :: "app \<Rightarrow> (error + settings_dict response) \<times> app" where
  "get_settings st =
     (let (c, st1) = connect st
      in case settings_join (db st1) of
           None \<Rightarrow> (Inl TypeError, st1)
         | Some row \<Rightarrow> (Inr (Json row 200), close st1))"

text \<open>
  The body of \<^verbatim>\<open>PUT /api/settings\<close>, at the types of the columns; \<open>None\<close> is a key
  that is missing or null (\<^verbatim>\<open>data.get\<close> gives \<^verbatim>\<open>None\<close> for both).
\<close>

record settings_patch =
  p_notification_frequency :: "string option"
  p_active_tweetbook_id :: "int option"
  p_start_time :: "string option"
  p_end_time :: "string option"
  p_random_mode :: "bool option"

text \<open>One \<^verbatim>\<open>column = ?\<close> of the UPDATE with the value bound to it.\<close>

datatype assignment =
  SetFrequency string | SetActiveTweetbook int | SetStartTime string
| SetEndTime string | SetRandomMode int

text \<open>
  \<^verbatim>\<open>update_fields\<close> and \<^verbatim>\<open>update_values\<close> (lines 327-348): four fields are added
  when truthy, \<^verbatim>\<open>random_mode\<close> when it is not \<^verbatim>\<open>None\<close>.
\<close>

definition update_fields :: "settings_patch \<Rightarrow> assignment list" where
  "update_fields p =
     (if truthy_str (p_notification_frequency p)
      then [SetFrequency (the (p_notification_frequency p))] else [])
     @ (if truthy_int (p_active_tweetbook_id p)
        then [SetActiveTweetbook (the (p_active_tweetbook_id p))] else [])
     @ (if truthy_str (p_start_time p) then [SetStartTime (the (p_start_time p))] else [])
     @ (if truthy_str (p_end_time p) then [SetEndTime (the (p_end_time p))] else [])
     @ (case p_random_mode p of
          None \<Rightarrow> []
        | Some flag \<Rightarrow> [SetRandomMode (if flag then 1 else 0)])"

fun assign :: "assignment \<Rightarrow> settings \<Rightarrow> settings" where
  "assign (SetFrequency v) s = s\<lparr>notification_frequency := v\<rparr>"
| "assign (SetActiveTweetbook v) s = s\<lparr>active_tweetbook_id := Some v\<rparr>"
| "assign (SetStartTime v) s = s\<lparr>start_time := v\<rparr>"
| "assign (SetEndTime v) s = s\<lparr>end_time := v\<rparr>"
| "assign (SetRandomMode v) s = s\<lparr>random_mode := v\<rparr>"

text \<open>\<^verbatim>\<open>UPDATE settings SET ... WHERE id = 1\<close>\<close>

definition update_settings_row :: "assignment list \<Rightarrow> store \<Rightarrow> store" where
  "update_settings_row fs d =
     d\<lparr>settings_tbl := map (\<lambda>s. if s_id s = 1 then fold assign fs s else s) (settings_tbl d)\<rparr>"

text \<open>The foreign key values an UPDATE writes, checked on an enforcing connection.\<close>

fun assigned_tweetbook :: "assignment \<Rightarrow> int option" where
  "assigned_tweetbook (SetActiveTweetbook v) = Some v"
| "assigned_tweetbook _ = None"

text \<open>
  \<^verbatim>\<open>update_settings\<close> (lines 315-359). An exception of the UPDATE or of
  \<^verbatim>\<open>update_scheduler\<close> leaves the handler before \<^verbatim>\<open>conn.close()\<close>.
\<close>

definition update_settings :: "nat \<Rightarrow> settings_patch \<Rightarrow> app \<Rightarrow> (error + string response) \<times> app" where
  "update_settings r p st =
     (let (c, st1) = connect st;
          fs = update_fields p
      in if fs \<noteq> [] then
           (if settings_row (db st1) \<noteq> None
               \<and> filter (\<lambda>a. violates_foreign_key c (db st1) (assigned_tweetbook a)) fs \<noteq> []
            then (Inl IntegrityError, st1)
            else
              (case update_scheduler r (st1\<lparr>db := update_settings_row fs (db st1)\<rparr>) of
                 (Inl e, st2) \<Rightarrow> (Inl e, st2)
               | (Inr u, st2) \<Rightarrow> (Inr (Json ''Settings updated successfully'' 200), close st2)))
         else (Inr (Json ''Settings updated successfully'' 200), close st1))"

subsection \<open>Auxiliary notions of the statements\<close>

text \<open>A request body of \<^verbatim>\<open>PUT /api/settings\<close> without any key.\<close>

definition empty_patch :: settings_patch where
  "empty_patch =
     \<lparr>p_notification_frequency = None, p_active_tweetbook_id = None, p_start_time = None,
      p_end_time = None, p_random_mode = None\<rparr>"


text \<open>The process after its first start on a new database file, at time 0.\<close>

definition first_start :: app where
  "first_start = snd (startup 0 0 fresh_file)"

text \<open>A well-formed body of \<^verbatim>\<open>POST /api/tweets\<close>.\<close>

definition tweet_body :: "string \<Rightarrow> int \<Rightarrow> tweet_request" where
  "tweet_body tid b =
     \<lparr>q_tweet_id = Some tid, q_content = Some ''hi'', q_author = Some ''a'',
      q_tweetbook_id = Some (Some b)\<rparr>"






text \<open>The process after one and after two tweets were saved into the default tweetbook.\<close>

definition one_tweet :: app where
  "one_tweet = snd (save_tweet 10 (tweet_body ''T1'' 1) first_start)"

definition two_tweets :: app where
  "two_tweets = snd (save_tweet 11 (tweet_body ''T2'' 1) one_tweet)"

text \<open>A process whose settings table has lost its row.\<close>

definition no_settings :: app where
  "no_settings = two_tweets\<lparr>db := (db two_tweets)\<lparr>settings_tbl := []\<rparr>\<rparr>"

text \<open>
  A body of \<^verbatim>\<open>PUT /api/settings\<close> that names a tweetbook which does not exist, and the
  process after the first start and that request.
\<close>

definition dangling_patch :: settings_patch where
  "dangling_patch = empty_patch\<lparr>p_active_tweetbook_id := Some 999\<rparr>"

definition dangling_settings :: app where
  "dangling_settings = snd (update_settings 0 dangling_patch first_start)"

text \<open>The database file a restart finds after two tweets were saved.\<close>

definition restart_file :: dbfile where
  "restart_file = file_of (db two_tweets)"

section \<open>Properties\<close>

subsection \<open>Auxiliary facts\<close>

lemma connect_simps [simp]:
  "fst (connect st) = \<lparr>foreign_keys = False\<rparr>"
  "snd (connect st) = st\<lparr>open_conns := Suc (open_conns st)\<rparr>"
  by (simp_all add: connect_def)



lemma first_start_eq:
  "first_start =
     \<lparr>db = \<lparr>tweetbooks = [default_tweetbook 0], tweetbooks_seq = 1, tweets = [],
             tweets_seq = 0, settings_tbl = [default_settings]\<rparr>,
      jobs = [(''show_tweet'', IntervalTrigger 30)], open_conns = 0, console = [],
      recomputes = 1\<rparr>"
  by (simp add: first_start_def startup_def update_scheduler_def started_def init_db_def
      fresh_file_def settings_row_def default_settings_def connect_def close_def add_job_def
      randint_def)

lemma no_fk [simp]: "violates_foreign_key \<lparr>foreign_keys = False\<rparr> d v = False"
  by (simp add: violates_foreign_key_def)

lemma update_settings_unfold:
  "update_settings r p st =
     (if update_fields p \<noteq> [] then
        (case update_scheduler r (st\<lparr>open_conns := Suc (open_conns st),
                 db := update_settings_row (update_fields p) (db st)\<rparr>) of
           (Inl e, st2) \<Rightarrow> (Inl e, st2)
         | (Inr u, st2) \<Rightarrow> (Inr (Json ''Settings updated successfully'' 200), close st2))
      else (Inr (Json ''Settings updated successfully'' 200), st))"
  by (simp add: update_settings_def connect_def close_def Let_def)










lemma init_db_fresh:
  "init_db now fresh_file =
      \<lparr>tweetbooks = [default_tweetbook now], tweetbooks_seq = 1, tweets = [], tweets_seq = 0,
       settings_tbl = [default_settings]\<rparr>"
  by (simp add: init_db_def fresh_file_def)






lemma get_random_tweet_unfold:
  "get_random_tweet r now tweetbook_id st =
     (case fetch_random r (candidates tweetbook_id (db st)) of
        Some t \<Rightarrow> (Some (dict_of t),
                   st\<lparr>open_conns := Suc (open_conns st),
                      db := mark_shown now (t_id t) (db st)\<rparr>)
      | None \<Rightarrow> (None, st))"
  by (simp add: get_random_tweet_def connect_def close_def split: option.splits)



lemma candidates_zero: "candidates (Some 0) d = tweets d"
  by (simp add: candidates_def truthy_int_def)




lemma one_tweet_eq:
  "one_tweet =
     \<lparr>db = \<lparr>tweetbooks = [default_tweetbook 0], tweetbooks_seq = 1,
             tweets = [\<lparr>t_id = 1, t_tweet_id = ''T1'', t_content = ''hi'', t_author = ''a'',
                        t_tweetbook_id = Some 1, t_created_at = 10, t_last_shown = None\<rparr>],
             tweets_seq = 1, settings_tbl = [default_settings]\<rparr>,
      jobs = [(''show_tweet'', IntervalTrigger 30)], open_conns = 0, console = [],
      recomputes = 1\<rparr>"
  by (simp add: one_tweet_def save_tweet_def tweet_body_def first_start_eq truthy_str_def
      connect_def close_def violates_unique_def next_rowid_def Let_def)

lemma two_tweets_eq:
  "two_tweets =
     \<lparr>db = \<lparr>tweetbooks = [default_tweetbook 0], tweetbooks_seq = 1,
             tweets = [\<lparr>t_id = 1, t_tweet_id = ''T1'', t_content = ''hi'', t_author = ''a'',
                        t_tweetbook_id = Some 1, t_created_at = 10, t_last_shown = None\<rparr>,
                       \<lparr>t_id = 2, t_tweet_id = ''T2'', t_content = ''hi'', t_author = ''a'',
                        t_tweetbook_id = Some 1, t_created_at = 11, t_last_shown = None\<rparr>],
             tweets_seq = 2, settings_tbl = [default_settings]\<rparr>,
      jobs = [(''show_tweet'', IntervalTrigger 30)], open_conns = 0, console = [],
      recomputes = 1\<rparr>"
  by (simp add: two_tweets_def one_tweet_eq save_tweet_def tweet_body_def truthy_str_def
      connect_def close_def violates_unique_def next_rowid_def Let_def)

lemma show_tweet_notification_unfold:
  "show_tweet_notification r now st =
     (case settings_row (db st) of
        None \<Rightarrow> (None, st)
      | Some s \<Rightarrow>
          (case fetch_random r (candidates (active_tweetbook_id s) (db st)) of
             Some t \<Rightarrow>
               (Some (dict_of t),
                st\<lparr>open_conns := Suc (Suc (open_conns st)),
                   db := mark_shown now (t_id t) (db st),
                   console := console st @ [notification_line (dict_of t)]\<rparr>)
           | None \<Rightarrow> (None, st)))"
  by (simp add: show_tweet_notification_def get_random_tweet_unfold connect_def close_def
      split: option.splits)

lemma no_settings_row: "settings_row (db no_settings) = None"
  by (simp add: no_settings_def settings_row_def)



lemma get_settings_unfold:
  "get_settings st =
     (case settings_join (db st) of
        None \<Rightarrow> (Inl TypeError, st\<lparr>open_conns := Suc (open_conns st)\<rparr>)
      | Some row \<Rightarrow> (Inr (Json row 200), st))"
  by (simp add: get_settings_def connect_def close_def split: option.splits)

lemma dangling_patch_fields: "update_fields dangling_patch = [SetActiveTweetbook 999]"
  by (simp add: dangling_patch_def empty_patch_def update_fields_def truthy_str_def
      truthy_int_def)

lemma dangling_update:
  "update_settings 0 dangling_patch first_start =
     (Inr (Json ''Settings updated successfully'' 200),
      first_start\<lparr>db := (db first_start)\<lparr>settings_tbl :=
                      [default_settings\<lparr>active_tweetbook_id := Some 999\<rparr>]\<rparr>,
                  recomputes := 2\<rparr>)"
  by (simp add: update_settings_unfold dangling_patch_fields update_settings_row_def
      update_scheduler_def first_start_eq default_settings_def settings_row_def connect_def
      close_def add_job_def randint_def)

lemma length_filter_insort_key:
  "length (filter P (insort_key f x xs)) = length (filter P xs) + (if P x then 1 else 0)"
  by (induction xs) auto

lemma filter_key_distinct:
  "distinct (map f xs) \<Longrightarrow> length (filter (\<lambda>x. f x = k) xs) \<le> 1"
proof (induction xs)
  case Nil
  then show ?case by simp
next
  case (Cons a xs)
  show ?case
  proof (cases "f a = k")
    case True
    from Cons.prems have "f a \<notin> f ` set xs" by simp
    with True have "\<forall>x \<in> set xs. f x \<noteq> k" by blast
    then have "filter (\<lambda>x. f x = k) xs = []" by (simp add: filter_empty_conv)
    with True show ?thesis by simp
  next
    case False
    with Cons show ?thesis by simp
  qed
qed

lemma find_filter_nonempty: "find P xs \<noteq> None \<Longrightarrow> filter P xs \<noteq> []"
  by (auto simp: find_None_iff filter_empty_conv)

lemma find_None_filter: "find P xs = None \<Longrightarrow> filter P xs = []"
  by (auto simp: find_None_iff filter_empty_conv)

lemma one_settings_row:
  assumes "distinct (map s_id (case file_settings f of None \<Rightarrow> [] | Some rows \<Rightarrow> rows))"
  shows "length (filter (\<lambda>s. s_id s = 1) (settings_tbl (init_db now f))) = 1"
proof -
  let ?sts = "case file_settings f of None \<Rightarrow> [] | Some rows \<Rightarrow> rows"
  show ?thesis
  proof (cases "find (\<lambda>s. s_id s = 1) ?sts = None")
    case True
    then have "filter (\<lambda>s. s_id s = 1) ?sts = []"
      by (rule find_None_filter)
    with True show ?thesis
      by (simp add: init_db_def Let_def length_filter_insort_key default_settings_def)
  next
    case False
    then have "filter (\<lambda>s. s_id s = 1) ?sts \<noteq> []" by (rule find_filter_nonempty)
    then have "1 \<le> length (filter (\<lambda>s. s_id s = 1) ?sts)"
      by (simp add: Suc_le_eq)
    moreover have "length (filter (\<lambda>s. s_id s = 1) ?sts) \<le> 1"
      using assms by (rule filter_key_distinct)
    ultimately have "length (filter (\<lambda>s. s_id s = 1) ?sts) = 1" by simp
    with False show ?thesis by (simp add: init_db_def Let_def)
  qed
qed

lemma one_default_tweetbook:
  assumes d: "distinct (map tb_id (case file_tweetbooks f of None \<Rightarrow> [] | Some rows \<Rightarrow> rows))"
    and n: "filter (\<lambda>t. tb_name t = ''Default'' \<and> tb_id t \<noteq> 1)
              (case file_tweetbooks f of None \<Rightarrow> [] | Some rows \<Rightarrow> rows) = []"
  shows "length (filter (\<lambda>t. tb_id t = 1) (tweetbooks (init_db now f))) = 1"
proof -
  let ?tbs = "case file_tweetbooks f of None \<Rightarrow> [] | Some rows \<Rightarrow> rows"
  show ?thesis
  proof (cases "find (\<lambda>t. tb_id t = 1 \<or> tb_name t = ''Default'') ?tbs = None")
    case True
    then have "filter (\<lambda>t. tb_id t = 1) ?tbs = []"
      by (auto simp: find_None_iff filter_empty_conv)
    with True show ?thesis
      by (simp add: init_db_def Let_def length_filter_insort_key default_tweetbook_def)
  next
    case False
    then obtain t where t: "t \<in> set ?tbs" and c: "tb_id t = 1 \<or> tb_name t = ''Default''"
      by (auto simp: find_None_iff)
    from n t have "\<not> (tb_name t = ''Default'' \<and> tb_id t \<noteq> 1)"
      by (auto simp: filter_empty_conv)
    with c have "tb_id t = 1" by blast
    with t have "filter (\<lambda>t. tb_id t = 1) ?tbs \<noteq> []"
      by (auto simp: filter_empty_conv)
    then have "1 \<le> length (filter (\<lambda>t. tb_id t = 1) ?tbs)"
      by (simp add: Suc_le_eq)
    moreover have "length (filter (\<lambda>t. tb_id t = 1) ?tbs) \<le> 1"
      using d by (rule filter_key_distinct)
    ultimately have "length (filter (\<lambda>t. tb_id t = 1) ?tbs) = 1" by simp
    with False show ?thesis by (simp add: init_db_def Let_def)
  qed
qed

lemma init_db_keeps_rows:
  "set (case file_tweetbooks f of None \<Rightarrow> [] | Some rows \<Rightarrow> rows)
     \<subseteq> set (tweetbooks (init_db now f))
   \<and> set (case file_settings f of None \<Rightarrow> [] | Some rows \<Rightarrow> rows)
     \<subseteq> set (settings_tbl (init_db now f))
   \<and> tweets (init_db now f) = (case file_tweets f of None \<Rightarrow> [] | Some rows \<Rightarrow> rows)"
  by (auto simp: init_db_def Let_def set_insort_key)

lemma init_db_twice: "init_db now2 (file_of (init_db now1 f)) = init_db now1 f"
  by (simp add: init_db_def file_of_def Let_def)
     (auto simp: find_None_iff set_insort_key default_tweetbook_def default_settings_def)

subsection \<open>Scheduler derivation\<close>



subsection \<open>Invocations of the scheduler update\<close>



subsection \<open>Partial update of the settings\<close>




subsection \<open>Random selection\<close>



subsection \<open>Random selection from an empty set\<close>



subsection \<open>Reading the settings\<close>

text \<open>
  Claim C6 fails on the code. After \<^verbatim>\<open>PUT /api/settings\<close> has stored the id of a
  tweetbook that does not exist, and likewise when the settings row is missing, the join
  of \<^verbatim>\<open>get_settings\<close> is empty and the handler leaves with TypeError (from
  \<^verbatim>\<open>dict(None)\<close>), not with a NotFound answer, and with its connection still open.
\<close>

theorem get_settings_unhandled:
  "fst (update_settings 0 dangling_patch first_start)
     = Inr (Json ''Settings updated successfully'' 200)
   \<and> get_settings dangling_settings = (Inl TypeError, dangling_settings\<lparr>open_conns := 1\<rparr>)
   \<and> get_settings no_settings = (Inl TypeError, no_settings\<lparr>open_conns := 1\<rparr>)"
proof -
  have j1: "settings_join (db dangling_settings) = None"
    unfolding dangling_settings_def dangling_update
    by (simp add: settings_join_def settings_row_def first_start_eq default_settings_def
        default_tweetbook_def)
  have j2: "settings_join (db no_settings) = None"
    by (simp add: settings_join_def no_settings_row)
  have o1: "open_conns dangling_settings = 0"
    unfolding dangling_settings_def dangling_update by (simp add: first_start_eq)
  have o2: "open_conns no_settings = 0"
    by (simp add: no_settings_def two_tweets_eq)
  show ?thesis
    by (simp add: get_settings_unfold j1 j2 o1 o2 dangling_update)
qed

subsection \<open>The notification producer\<close>



subsection \<open>Foreign keys\<close>

text \<open>
  Claim C8 fails on the code. On the connections the module opens, foreign keys are not
  enforced: \<^verbatim>\<open>save_tweet\<close> with the tweetbook id 999 answers 201 and stores the tweet,
  and \<^verbatim>\<open>update_settings\<close> stores 999 as \<^verbatim>\<open>active_tweetbook_id\<close>, while the only
  tweetbook has id 1.
\<close>

theorem foreign_keys_not_enforced:
  "fst (save_tweet 10 (tweet_body ''T1'' 999) first_start)
     = Json \<lparr>sv_id = 1, sv_tweet_id = ''T1'', sv_content = ''hi'', sv_author = ''a'',
             sv_tweetbook_id = Some 999\<rparr> 201
   \<and> map t_tweetbook_id (tweets (db (snd (save_tweet 10 (tweet_body ''T1'' 999) first_start))))
     = [Some 999]
   \<and> map tb_id (tweetbooks (db (snd (save_tweet 10 (tweet_body ''T1'' 999) first_start)))) = [1]
   \<and> fst (update_settings 0 dangling_patch first_start)
     = Inr (Json ''Settings updated successfully'' 200)
   \<and> map active_tweetbook_id (settings_tbl (db dangling_settings)) = [Some 999]
   \<and> map tb_id (tweetbooks (db dangling_settings)) = [1]"
proof -
  have s: "save_tweet 10 (tweet_body ''T1'' 999) first_start =
     (Json \<lparr>sv_id = 1, sv_tweet_id = ''T1'', sv_content = ''hi'', sv_author = ''a'',
             sv_tweetbook_id = Some 999\<rparr> 201,
      first_start\<lparr>db := (db first_start)\<lparr>tweets :=
         [\<lparr>t_id = 1, t_tweet_id = ''T1'', t_content = ''hi'', t_author = ''a'',
           t_tweetbook_id = Some 999, t_created_at = 10, t_last_shown = None\<rparr>],
         tweets_seq := 1\<rparr>\<rparr>)"
    by (simp add: save_tweet_def tweet_body_def first_start_eq truthy_str_def
        connect_def close_def violates_unique_def next_rowid_def Let_def)
  show ?thesis
    unfolding s dangling_settings_def dangling_update
    by (simp add: first_start_eq default_tweetbook_def default_settings_def)
qed

subsection \<open>Connections\<close>

text \<open>
  Claim C9 fails on the code. With two tweets in the default tweetbook and no open
  connection, \<^verbatim>\<open>get_random_tweet\<close> finds a tweet and returns with its connection still
  open, and \<^verbatim>\<open>show_tweet_notification\<close> returns the tweet with two connections open, its
  own and that of \<^verbatim>\<open>get_random_tweet\<close>: both return before their \<^verbatim>\<open>conn.close()\<close>.
\<close>

theorem connection_left_open:
  "open_conns two_tweets = 0
   \<and> fst (get_random_tweet 0 30 (Some 1) two_tweets)
       = Some \<lparr>d_id = 1, d_tweet_id = ''T1'', d_content = ''hi'', d_author = ''a''\<rparr>
   \<and> open_conns (snd (get_random_tweet 0 30 (Some 1) two_tweets)) = 1
   \<and> fst (show_tweet_notification 0 30 two_tweets)
       = Some \<lparr>d_id = 1, d_tweet_id = ''T1'', d_content = ''hi'', d_author = ''a''\<rparr>
   \<and> open_conns (snd (show_tweet_notification 0 30 two_tweets)) = 2"
  by (simp add: get_random_tweet_unfold show_tweet_notification_unfold two_tweets_eq
      candidates_def truthy_int_def fetch_random_def dict_of_def settings_row_def
      default_settings_def)

subsection \<open>Store initialisation\<close>

text \<open>
  Claim C10. Running \<^verbatim>\<open>init_db\<close> again on the database it has produced changes nothing,
  whatever the file held before and whatever the clocks of the two runs. On a new file,
  one run or two leave exactly one tweetbook with id 1, which is the only one named
  \<^verbatim>\<open>Default\<close>, and exactly one settings row with id 1, the default one. On any file
  whose rows have distinct ids, and where the name \<^verbatim>\<open>Default\<close> is not held by a tweetbook
  of another id, there is exactly one row with id 1 in either table afterwards. Every row
  the file held is still there, and the tweets are as they were.
\<close>

theorem init_db_idempotent:
  "init_db now2 (file_of (init_db now1 f)) = init_db now1 f
   \<and> filter (\<lambda>t. tb_id t = 1) (tweetbooks (init_db now1 fresh_file)) = [default_tweetbook now1]
   \<and> filter (\<lambda>t. tb_name t = ''Default'') (tweetbooks (init_db now1 fresh_file))
       = [default_tweetbook now1]
   \<and> filter (\<lambda>s. s_id s = 1) (settings_tbl (init_db now1 fresh_file)) = [default_settings]
   \<and> tweetbooks (init_db now2 (file_of (init_db now1 fresh_file))) = [default_tweetbook now1]
   \<and> settings_tbl (init_db now2 (file_of (init_db now1 fresh_file))) = [default_settings]
   \<and> (distinct (map s_id (case file_settings f of None \<Rightarrow> [] | Some rows \<Rightarrow> rows))
        \<longrightarrow> length (filter (\<lambda>s. s_id s = 1) (settings_tbl (init_db now1 f))) = 1)
   \<and> (distinct (map tb_id (case file_tweetbooks f of None \<Rightarrow> [] | Some rows \<Rightarrow> rows))
        \<and> filter (\<lambda>t. tb_name t = ''Default'' \<and> tb_id t \<noteq> 1)
              (case file_tweetbooks f of None \<Rightarrow> [] | Some rows \<Rightarrow> rows) = []
        \<longrightarrow> length (filter (\<lambda>t. tb_id t = 1) (tweetbooks (init_db now1 f))) = 1)
   \<and> set (case file_tweetbooks f of None \<Rightarrow> [] | Some rows \<Rightarrow> rows)
        \<subseteq> set (tweetbooks (init_db now1 f))
   \<and> set (case file_settings f of None \<Rightarrow> [] | Some rows \<Rightarrow> rows)
        \<subseteq> set (settings_tbl (init_db now1 f))
   \<and> tweets (init_db now1 f) = (case file_tweets f of None \<Rightarrow> [] | Some rows \<Rightarrow> rows)"
proof -
  have fresh: "init_db now1 fresh_file =
      \<lparr>tweetbooks = [default_tweetbook now1], tweetbooks_seq = 1, tweets = [], tweets_seq = 0,
       settings_tbl = [default_settings]\<rparr>"
    by (rule init_db_fresh)
  have a: "filter (\<lambda>t. tb_id t = 1) (tweetbooks (init_db now1 fresh_file))
             = [default_tweetbook now1]"
    unfolding fresh by (simp add: default_tweetbook_def)
  have b: "filter (\<lambda>t. tb_name t = ''Default'') (tweetbooks (init_db now1 fresh_file))
             = [default_tweetbook now1]"
    unfolding fresh by (simp add: default_tweetbook_def)
  have c: "filter (\<lambda>s. s_id s = 1) (settings_tbl (init_db now1 fresh_file)) = [default_settings]"
    unfolding fresh by (simp add: default_settings_def)
  have d: "tweetbooks (init_db now2 (file_of (init_db now1 fresh_file)))
             = [default_tweetbook now1]"
    by (subst init_db_twice) (simp add: fresh)
  have e: "settings_tbl (init_db now2 (file_of (init_db now1 fresh_file))) = [default_settings]"
    by (subst init_db_twice) (simp add: fresh)
  have g: "distinct (map s_id (case file_settings f of None \<Rightarrow> [] | Some rows \<Rightarrow> rows))
        \<longrightarrow> length (filter (\<lambda>s. s_id s = 1) (settings_tbl (init_db now1 f))) = 1"
    using one_settings_row [of f now1] by blast
  have h: "distinct (map tb_id (case file_tweetbooks f of None \<Rightarrow> [] | Some rows \<Rightarrow> rows))
        \<and> filter (\<lambda>t. tb_name t = ''Default'' \<and> tb_id t \<noteq> 1)
              (case file_tweetbooks f of None \<Rightarrow> [] | Some rows \<Rightarrow> rows) = []
        \<longrightarrow> length (filter (\<lambda>t. tb_id t = 1) (tweetbooks (init_db now1 f))) = 1"
    using one_default_tweetbook [of f now1] by blast
  note k = init_db_keeps_rows [of f now1]
  from init_db_twice [of now2 now1 f] a b c d e g h k show ?thesis
    by (intro conjI) blast+
qed

theorem init_db_idempotent_witness:
  "length (filter (\<lambda>s. s_id s = 1) (settings_tbl (init_db 50 restart_file))) = 1
   \<and> length (filter (\<lambda>t. tb_id t = 1) (tweetbooks (init_db 50 restart_file))) = 1
   \<and> init_db 50 restart_file = db two_tweets"
proof -
  have s: "file_settings restart_file = Some [default_settings]"
    by (simp add: restart_file_def file_of_def two_tweets_eq)
  have t: "file_tweetbooks restart_file = Some [default_tweetbook 0]"
    by (simp add: restart_file_def file_of_def two_tweets_eq)
  have h1: "distinct (map s_id (case file_settings restart_file of
                                  None \<Rightarrow> [] | Some rows \<Rightarrow> rows))"
    by (simp add: s)
  have h2: "distinct (map tb_id (case file_tweetbooks restart_file of
                                   None \<Rightarrow> [] | Some rows \<Rightarrow> rows))
        \<and> filter (\<lambda>t. tb_name t = ''Default'' \<and> tb_id t \<noteq> 1)
              (case file_tweetbooks restart_file of None \<Rightarrow> [] | Some rows \<Rightarrow> rows) = []"
    by (simp add: t default_tweetbook_def)
  have same: "init_db 50 restart_file = db two_tweets"
    by (simp add: init_db_def restart_file_def file_of_def two_tweets_eq
        default_tweetbook_def default_settings_def)
  from init_db_idempotent [of 50 50 restart_file] h1 h2 same show ?thesis
    by blast
qed

end
